theory Spec2Isabelle
  imports Complex_Main
begin

section \<open>The image library as the bridge sees it\<close>

text \<open>
  The module \<open>imageIO\<close> (image.cpp) is a set of free functions over caller-owned
  \<open>std::vector<T>\<close> buffers; every pixel operation is a call into OpenImageIO, which is
  not part of the repository. The library is modelled by the few facts the bridge relies
  on: an image buffer has a descriptor and a pixel value at every (x, y, channel); a
  caller's memory is read row-major with interleaved channels; whatever the library
  computes numerically (type conversion, weighted sums, resampling, convolution, decoding
  and encoding of files) is a field of the record \<open>oiio\<close> and stays a parameter.

  Widths, heights and channel counts are natural numbers here: a negative dimension has
  no meaning for the library. Where the bridge multiplies them as C++ \<open>int\<close>, the
  product is taken in 32-bit arithmetic (\<open>int_mul\<close> below). A buffer is the flat list
  of its scalar components (bytes or floats); an element type \<open>T\<close> of \<open>tsize\<close>
  components occupies \<open>tsize\<close> consecutive entries.
\<close>

datatype TypeDesc = UNKNOWN | UCHAR | UINT16 | HALF | FLOAT

datatype attr_value = AttrInt int | AttrStr string

record ImageSpec =
  width :: nat
  height :: nat
  nchannels :: nat
  format :: TypeDesc
  extra_attribs :: "(string \<times> attr_value) list"

text \<open>\<open>oiio::ImageSpec(width, height, nchannels, typeDesc)\<close>.\<close>

definition ImageSpec_new :: "nat \<Rightarrow> nat \<Rightarrow> nat \<Rightarrow> TypeDesc \<Rightarrow> ImageSpec" where
  "ImageSpec_new w h c td =
     \<lparr>width = w, height = h, nchannels = c, format = td, extra_attribs = []\<rparr>"

text \<open>\<open>ImageSpec::attribute(name, value)\<close>: sets the attribute, replacing an earlier
  value of the same name.\<close>

fun set_attr :: "string \<Rightarrow> attr_value \<Rightarrow> (string \<times> attr_value) list
    \<Rightarrow> (string \<times> attr_value) list" where
  "set_attr k v [] = [(k, v)]"
| "set_attr k v ((k', v') # rest) =
     (if k = k' then (k, v) # rest else (k', v') # set_attr k v rest)"

definition attribute :: "string \<Rightarrow> attr_value \<Rightarrow> ImageSpec \<Rightarrow> ImageSpec" where
  "attribute k v s = s\<lparr>extra_attribs := set_attr k v (extra_attribs s)\<rparr>"

record 'v ImageBuf =
  spec :: ImageSpec
  pixel :: "nat \<Rightarrow> nat \<Rightarrow> nat \<Rightarrow> 'v"

text \<open>
  What the bridge takes from OpenImageIO without looking inside. \<open>open_image\<close> is the
  constructor \<open>ImageBuf(path, 0, 0, NULL, &configSpec)\<close> followed by
  \<open>initialized()\<close>: \<open>None\<close> when the file cannot be opened.
\<close>

record 'v oiio =
  open_image :: "ImageSpec \<Rightarrow> string \<Rightarrow> 'v ImageBuf option"
  convert_type :: "TypeDesc \<Rightarrow> TypeDesc \<Rightarrow> 'v \<Rightarrow> 'v"
  weighted_sum :: "rat list \<Rightarrow> 'v list \<Rightarrow> 'v"
  sum_format :: "TypeDesc \<Rightarrow> TypeDesc"
  blank :: "'v"
  write_file :: "'v ImageBuf \<Rightarrow> string \<Rightarrow> bool"
  resample :: "string \<Rightarrow> 'v \<Rightarrow> 'v ImageBuf \<Rightarrow> ImageSpec \<Rightarrow> nat \<Rightarrow> nat \<Rightarrow> nat \<Rightarrow> 'v"
  make_kernel :: "string \<Rightarrow> 'v \<Rightarrow> 'v \<Rightarrow> 'v ImageBuf"
  convolve :: "'v ImageBuf \<Rightarrow> 'v ImageBuf \<Rightarrow> nat \<Rightarrow> nat \<Rightarrow> nat \<Rightarrow> 'v"

text \<open>A value stored in one element format and read in another is converted by the
  library; between equal formats it is copied.\<close>

definition cvt :: "'v oiio \<Rightarrow> TypeDesc \<Rightarrow> TypeDesc \<Rightarrow> 'v \<Rightarrow> 'v" where
  "cvt L from to v = (if from = to then v else convert_type L from to v)"

text \<open>
  Modelled from the spec: \<open>ImageBuf(spec, buffer.data())\<close> of OpenImageIO, which is not
  under src/. The spec's data model has a buffer as a "contiguous, row-major sequence"
  of width * height * channels components: component \<open>ch\<close> of the pixel at column
  \<open>x\<close> of row \<open>y\<close> is entry \<open>(y * width + x) * nchannels + ch\<close>.
\<close>

definition ImageBuf_wrap :: "ImageSpec \<Rightarrow> 'v list \<Rightarrow> 'v ImageBuf" where
  "ImageBuf_wrap s buf =
     \<lparr>spec = s, pixel = (\<lambda>x y ch. buf ! ((y * width s + x) * nchannels s + ch))\<rparr>"

text \<open>\<open>ImageBuf(spec)\<close>: fresh storage owned by the library.\<close>

definition ImageBuf_new :: "'v oiio \<Rightarrow> ImageSpec \<Rightarrow> 'v ImageBuf" where
  "ImageBuf_new L s = \<lparr>spec = s, pixel = (\<lambda>x y ch. blank L)\<rparr>"

text \<open>
  Modelled from the spec: \<open>ImageBuf::get_pixels(roi, typeDesc, data)\<close> of OpenImageIO
  ("Extract pixels for channel range [0, target channel count)"): the components of the
  channels \<open>chbegin ..< chend\<close> over the whole image, row-major and interleaved,
  converted to \<open>typeDesc\<close>.
\<close>

definition ImageBuf_get_pixels :: "'v oiio \<Rightarrow> 'v ImageBuf \<Rightarrow> nat \<Rightarrow> nat \<Rightarrow> TypeDesc \<Rightarrow> 'v list" where
  "ImageBuf_get_pixels L img chbegin chend td =
     (let W = width (spec img); H = height (spec img); C = chend - chbegin
      in map (\<lambda>i. cvt L (format (spec img)) td
                (pixel img ((i div C) mod W) ((i div C) div W) (chbegin + i mod C)))
           [0 ..< W * H * C])"

text \<open>Writing \<open>data\<close> through the pointer \<open>buffer.data()\<close>: the first
  \<open>length data\<close> components of the vector are overwritten, the rest stays.\<close>

definition store :: "'v list \<Rightarrow> 'v list \<Rightarrow> 'v list" where
  "store data buf = data @ drop (length data) buf"

text \<open>
  Modelled from the spec: \<open>ImageBufAlgo::transpose\<close> of OpenImageIO ("produces the
  transpose over the full region"): the result has the width and height exchanged and
  its pixel at (x, y) is the source's pixel at (y, x).
\<close>

definition ImageBufAlgo_transpose :: "'v ImageBuf \<Rightarrow> 'v ImageBuf" where
  "ImageBufAlgo_transpose src =
     \<lparr>spec = (spec src)\<lparr>width := height (spec src), height := width (spec src)\<rparr>,
      pixel = (\<lambda>x y ch. pixel src y x ch)\<rparr>"

section \<open>Failures\<close>

text \<open>
  The bridge throws \<open>std::runtime_error\<close> at three places, told apart by their
  message; the names are the spec's taxonomy: "Can't find/open image file"
  (\<open>FileOpenError\<close>), "Can't load channels of image file"
  (\<open>UnsupportedChannelLayoutError\<close>), "Can't write output image file"
  (\<open>FileWriteError\<close>). \<open>AssertionFailure\<close> is a failed \<open>assert\<close>.
  \<open>LengthError\<close> is the \<open>std::length_error\<close> of \<open>std::vector::resize\<close>.
  \<open>OutOfBounds\<close> stands for undefined behaviour: the library is handed
  \<open>buffer.data()\<close> of a vector shorter than the descriptor built beside it, or a
  division by zero.
\<close>

datatype error =
  AssertionFailure | FileOpenError | UnsupportedChannelLayoutError | FileWriteError
  | LengthError | OutOfBounds

section \<open>Arithmetic on \<open>int\<close> and the size of a vector\<close>

text \<open>
  \<open>int\<close> has 32 bits. Overflow of a signed product is undefined in C++; the model
  takes the two's-complement result, which is what the product leaves in the register.
\<close>

definition INT_MAX :: int where
  "INT_MAX = 2147483647"

definition int_wrap :: "int \<Rightarrow> int" where
  "int_wrap i = (i + 2147483648) mod 4294967296 - 2147483648"

definition int_mul :: "int \<Rightarrow> int \<Rightarrow> int" where
  "int_mul a b = int_wrap (a * b)"

text \<open>
  \<open>buffer.resize(n)\<close> with an \<open>int\<close> argument: \<open>n\<close> is converted to
  \<open>size_t\<close>. A negative \<open>n\<close> becomes a count of at least 2^64 - 2^31 elements,
  above \<open>max_size()\<close> of every vector, and \<open>resize\<close> throws
  \<open>std::length_error\<close> (\<open>None\<close>). Otherwise the count is \<open>n\<close>; running out of
  memory is not modelled.
\<close>

definition resize_count :: "int \<Rightarrow> nat option" where
  "resize_count n = (if n < 0 then None else Some (nat n))"

section \<open>transposeImage\<close>

text \<open>
  The template \<open>transposeImage<T>(typeDesc, width, height, nchannels, buffer)\<close>. The
  library reads \<open>width * height * nchannels\<close> components through \<open>buffer.data()\<close>
  and writes as many back. Nothing is returned but the buffer: width and height are
  passed by value.
\<close>

definition transposeImage :: "'v oiio \<Rightarrow> TypeDesc \<Rightarrow> nat \<Rightarrow> nat \<Rightarrow> nat \<Rightarrow> 'v list \<Rightarrow> error + 'v list" where
  "transposeImage L typeDesc w h c buffer =
     (if length buffer < w * h * c then Inl OutOfBounds
      else
        let imageSpec = ImageSpec_new w h c typeDesc;
            inBuf = ImageBuf_wrap imageSpec buffer;
            transposeBuf = ImageBufAlgo_transpose inBuf
        in Inr (store (ImageBuf_get_pixels L transposeBuf 0 (nchannels (spec transposeBuf)) typeDesc)
                  buffer))"

text \<open>The four overloads, chosen by the element type of the vector.\<close>

definition transposeImage_uchar :: "'v oiio \<Rightarrow> nat \<Rightarrow> nat \<Rightarrow> 'v list \<Rightarrow> error + 'v list" where
  "transposeImage_uchar L w h buffer = transposeImage L UCHAR w h 1 buffer"

definition transposeImage_rgb :: "'v oiio \<Rightarrow> nat \<Rightarrow> nat \<Rightarrow> 'v list \<Rightarrow> error + 'v list" where
  "transposeImage_rgb L w h buffer = transposeImage L UCHAR w h 3 buffer"

definition transposeImage_float :: "'v oiio \<Rightarrow> nat \<Rightarrow> nat \<Rightarrow> 'v list \<Rightarrow> error + 'v list" where
  "transposeImage_float L w h buffer = transposeImage L FLOAT w h 1 buffer"

definition transposeImage_Color :: "'v oiio \<Rightarrow> nat \<Rightarrow> nat \<Rightarrow> 'v list \<Rightarrow> error + 'v list" where
  "transposeImage_Color L w h buffer = transposeImage L FLOAT w h 3 buffer"

section \<open>readImage\<close>

text \<open>
  Modelled from the spec: \<open>ImageBufAlgo::channel_sum(dst, src, weights, roi)\<close> of
  OpenImageIO ("reduce the first three source channels to one grayscale channel via a
  fixed weighted sum ..., discarding channels beyond 3"): a one-channel image of the
  source's size. The sum itself is computed by the library in binary floating point and
  is the parameter \<open>weighted_sum\<close>.
\<close>

definition ImageBufAlgo_channel_sum :: "'v oiio \<Rightarrow> 'v ImageBuf \<Rightarrow> rat list \<Rightarrow> nat \<Rightarrow> nat \<Rightarrow> 'v ImageBuf" where
  "ImageBufAlgo_channel_sum L src weights chbegin chend =
     \<lparr>spec = (spec src)\<lparr>nchannels := 1, format := sum_format L (format (spec src))\<rparr>,
      pixel = (\<lambda>x y ch. weighted_sum L weights (map (\<lambda>c. pixel src x y c) [chbegin ..< chend]))\<rparr>"

text \<open>
  Modelled from the spec: \<open>ImageBufAlgo::paste(dst, 0, 0, 0, chbegin, src)\<close> of
  OpenImageIO ("replicate the single source channel into channels 0, 1, 2 of the
  result"): the channels of \<open>src\<close> are copied into \<open>dst\<close> from channel
  \<open>chbegin\<close> on, inside the extent of \<open>dst\<close>, converted to its element format.
\<close>

definition ImageBufAlgo_paste :: "'v oiio \<Rightarrow> 'v ImageBuf \<Rightarrow> nat \<Rightarrow> 'v ImageBuf \<Rightarrow> 'v ImageBuf" where
  "ImageBufAlgo_paste L dst chbegin src =
     dst\<lparr>pixel := (\<lambda>x y ch.
        if x < width (spec src) \<and> x < width (spec dst)
           \<and> y < height (spec src) \<and> y < height (spec dst)
           \<and> chbegin \<le> ch \<and> ch < chbegin + nchannels (spec src) \<and> ch < nchannels (spec dst)
        then cvt L (format (spec src)) (format (spec dst)) (pixel src x y (ch - chbegin))
        else pixel dst x y ch)\<rparr>"

text \<open>\<open>std::vector<T>::resize(n)\<close> on the flat components: the first \<open>n\<close> elements
  are kept, new elements are value-initialised (\<open>zero\<close>).\<close>

definition vector_resize :: "nat \<Rightarrow> 'v \<Rightarrow> nat \<Rightarrow> 'v list \<Rightarrow> 'v list" where
  "vector_resize tsize zero n buf =
     take (n * tsize) buf @ replicate (n * tsize - length buf) zero"

text \<open>The decode options of \<open>configSpec\<close>.\<close>

definition configSpec :: ImageSpec where
  "configSpec =
     attribute ''raw:use_camera_matrix'' (AttrInt 3)
       (attribute ''raw:ColorSpace'' (AttrStr ''sRGB'')
         (attribute ''raw:use_camera_wb'' (AttrInt 1)
           (attribute ''raw:auto_bright'' (AttrInt 0)
             (ImageSpec_new 0 0 0 UNKNOWN))))"

text \<open>\<open>const float weights[3] = {.2126, .7152, .0722}\<close>: the binary32 numbers
  nearest to the three decimals, written as fractions.\<close>

definition weights :: "rat list" where
  "weights = [891709 / 4194304, 11999065 / 16777216, 1211315 / 16777216]"

text \<open>The reference parameters \<open>width\<close>, \<open>height\<close> and \<open>buffer\<close> of the caller.\<close>

record 'v read_refs =
  ref_width :: nat
  ref_height :: nat
  ref_buffer :: "'v list"

text \<open>
  The template \<open>readImage<T>(path, typeDesc, nchannels, width, height, buffer)\<close>;
  \<open>tsize\<close> is the number of components of \<open>T\<close>. The result is the exception
  thrown, if any, and the caller's variables as the call leaves them. \<open>inSpec\<close> is a
  reference to the descriptor of \<open>inBuf\<close>: after \<open>inBuf.copy\<close> it is read as the
  descriptor of the copy. The size \<open>inSpec.width * inSpec.height * nchannels\<close> is an
  \<open>int\<close> product, multiplied from the left; \<open>get_pixels\<close> then writes
  width * height * nchannels components through \<open>buffer.data()\<close>, whatever the
  vector's size has become. The three blocks of the body ("convert to grayscale if
  needed", "add missing channels", and the export into the caller's variables) are
  \<open>convert_to_grayscale\<close>, \<open>add_missing_channels\<close> and \<open>export_pixels\<close>.
\<close>

definition convert_to_grayscale :: "'v oiio \<Rightarrow> nat \<Rightarrow> 'v ImageBuf \<Rightarrow> 'v ImageBuf" where
  "convert_to_grayscale L nch inBuf =
     (if nch = 1 \<and> nchannels (spec inBuf) \<ge> 3
      then ImageBufAlgo_channel_sum L inBuf weights 0 3
      else inBuf)"

definition add_missing_channels :: "'v oiio \<Rightarrow> TypeDesc \<Rightarrow> nat \<Rightarrow> 'v ImageBuf \<Rightarrow> 'v ImageBuf" where
  "add_missing_channels L typeDesc nch inBuf =
     (if nch > nchannels (spec inBuf)
      then
        let requestedSpec = ImageSpec_new (width (spec inBuf)) (height (spec inBuf)) nch typeDesc;
            requestedBuf = ImageBuf_new L requestedSpec
        in if nchannels requestedSpec \<ge> 3 \<and> nchannels (spec inBuf) < 3
           then ImageBufAlgo_paste L
                  (ImageBufAlgo_paste L
                    (ImageBufAlgo_paste L requestedBuf 0 inBuf) 1 inBuf) 2 inBuf
           else requestedBuf
      else inBuf)"

definition export_pixels :: "'v oiio \<Rightarrow> nat \<Rightarrow> 'v \<Rightarrow> TypeDesc \<Rightarrow> nat \<Rightarrow> 'v ImageBuf \<Rightarrow> 'v read_refs
    \<Rightarrow> error option \<times> 'v read_refs" where
  "export_pixels L tsize zero typeDesc nch inBuf refs =
     (let inSpec = spec inBuf;
          refs1 = refs\<lparr>ref_width := width inSpec\<rparr>;
          refs2 = refs1\<lparr>ref_height := height inSpec\<rparr>;
          n = int_mul (int_mul (int (width inSpec)) (int (height inSpec))) (int nch)
      in case resize_count n of
           None \<Rightarrow> (Some LengthError, refs2)
         | Some count \<Rightarrow>
             let refs3 = refs2\<lparr>ref_buffer :=
                   vector_resize tsize zero count (ref_buffer refs2)\<rparr>;
                 refs4 = refs3\<lparr>ref_buffer :=
                   store (ImageBuf_get_pixels L inBuf 0 nch typeDesc) (ref_buffer refs3)\<rparr>
             in if length (ref_buffer refs3) < width inSpec * height inSpec * nch
                then (Some OutOfBounds, refs3)
                else (None, refs4))"

definition readImage :: "'v oiio \<Rightarrow> nat \<Rightarrow> 'v \<Rightarrow> string \<Rightarrow> TypeDesc \<Rightarrow> nat \<Rightarrow> 'v read_refs
    \<Rightarrow> error option \<times> 'v read_refs" where
  "readImage L tsize zero path typeDesc nch refs =
     (if \<not> (nch = 1 \<or> nch \<ge> 3) then (Some AssertionFailure, refs)
      else
        case open_image L configSpec path of
          None \<Rightarrow> (Some FileOpenError, refs)
        | Some inBuf \<Rightarrow>
            if nchannels (spec inBuf) \<noteq> 1 \<and> nchannels (spec inBuf) < 3
            then (Some UnsupportedChannelLayoutError, refs)
            else
              export_pixels L tsize zero typeDesc nch
                (add_missing_channels L typeDesc nch (convert_to_grayscale L nch inBuf))
                refs)"

text \<open>
  The four overloads. Modelled from the spec: the element types \<open>rgb\<close> and
  \<open>Color\<close> are declared in mv_structures.hpp and mv_color.hpp, which are not under
  src/; the spec has them as a "3-component byte triple" and a "3-component float
  triple", so \<open>tsize\<close> is 3 for them and 1 for \<open>unsigned char\<close> and \<open>float\<close>.
\<close>

definition readImage_uchar :: "'v oiio \<Rightarrow> 'v \<Rightarrow> string \<Rightarrow> 'v read_refs \<Rightarrow> error option \<times> 'v read_refs" where
  "readImage_uchar L zero path refs = readImage L 1 zero path UCHAR 1 refs"

definition readImage_rgb :: "'v oiio \<Rightarrow> 'v \<Rightarrow> string \<Rightarrow> 'v read_refs \<Rightarrow> error option \<times> 'v read_refs" where
  "readImage_rgb L zero path refs = readImage L 3 zero path UCHAR 3 refs"

definition readImage_float :: "'v oiio \<Rightarrow> 'v \<Rightarrow> string \<Rightarrow> 'v read_refs \<Rightarrow> error option \<times> 'v read_refs" where
  "readImage_float L zero path refs = readImage L 1 zero path FLOAT 1 refs"

definition readImage_Color :: "'v oiio \<Rightarrow> 'v \<Rightarrow> string \<Rightarrow> 'v read_refs \<Rightarrow> error option \<times> 'v read_refs" where
  "readImage_Color L zero path refs = readImage L 3 zero path FLOAT 3 refs"

text \<open>The pixel kind of a call is the element type of the vector it is given; it
  selects the overload.\<close>

datatype PixelKind = ByteGray | ByteRgb | FloatGray | FloatRgb

fun channelsPerElement :: "PixelKind \<Rightarrow> nat" where
  "channelsPerElement ByteGray = 1"
| "channelsPerElement ByteRgb = 3"
| "channelsPerElement FloatGray = 1"
| "channelsPerElement FloatRgb = 3"

fun elementType :: "PixelKind \<Rightarrow> TypeDesc" where
  "elementType ByteGray = UCHAR"
| "elementType ByteRgb = UCHAR"
| "elementType FloatGray = FLOAT"
| "elementType FloatRgb = FLOAT"

fun readImage_kind :: "PixelKind \<Rightarrow> 'v oiio \<Rightarrow> 'v \<Rightarrow> string \<Rightarrow> 'v read_refs \<Rightarrow> error option \<times> 'v read_refs" where
  "readImage_kind ByteGray = readImage_uchar"
| "readImage_kind ByteRgb = readImage_rgb"
| "readImage_kind FloatGray = readImage_float"
| "readImage_kind FloatRgb = readImage_Color"

section \<open>writeImage\<close>

text \<open>\<open>path.compare(pos, len, str) == 0\<close> for \<open>pos \<le> path.size()\<close>: the
  \<open>len\<close> characters of \<open>path\<close> from \<open>pos\<close> on (fewer at the end of the
  string) are the string \<open>str\<close>.\<close>

definition compare_eq :: "string \<Rightarrow> nat \<Rightarrow> nat \<Rightarrow> string \<Rightarrow> bool" where
  "compare_eq path pos len str = (take len (drop pos path) = str)"

definition isEXR :: "string \<Rightarrow> bool" where
  "isEXR path = (length path > 4 \<and> compare_eq path (length path - 4) 4 ''.exr'')"

text \<open>The spec's condition "the target path ends in the EXR extension", read as it
  is written: the last characters of the path are \<open>.exr\<close>.\<close>

definition ends_in_exr :: "string \<Rightarrow> bool" where
  "ends_in_exr path = (4 \<le> length path \<and> drop (length path - 4) path = ''.exr'')"

text \<open>
  Modelled from the spec: \<open>ImageBuf::copy_pixels(src)\<close> of OpenImageIO ("convert"):
  the destination keeps its descriptor and takes the source's pixel values, converted
  to its own element format.
\<close>

definition ImageBuf_copy_pixels :: "'v oiio \<Rightarrow> 'v ImageBuf \<Rightarrow> 'v ImageBuf \<Rightarrow> 'v ImageBuf" where
  "ImageBuf_copy_pixels L dst src =
     dst\<lparr>pixel := (\<lambda>x y ch.
        if x < width (spec src) \<and> y < height (spec src) \<and> ch < nchannels (spec src)
        then cvt L (format (spec src)) (format (spec dst)) (pixel src x y ch)
        else pixel dst x y ch)\<rparr>"

text \<open>The image \<open>outBuf\<close> that \<open>writeImage<T>\<close> hands to \<open>write\<close>, in either
  branch.\<close>

definition writeImage_outBuf :: "'v oiio \<Rightarrow> string \<Rightarrow> TypeDesc \<Rightarrow> nat \<Rightarrow> nat \<Rightarrow> nat \<Rightarrow> 'v list \<Rightarrow> 'v ImageBuf" where
  "writeImage_outBuf L path typeDesc w h c buffer =
     (let imageSpec = ImageSpec_new w h c typeDesc
      in if isEXR path
         then
           let buf = ImageBuf_wrap imageSpec buffer;
               imageSpec1 = imageSpec\<lparr>format := HALF\<rparr>;
               imageSpec2 = attribute ''compression'' (AttrStr ''piz'') imageSpec1;
               outBuf = ImageBuf_new L imageSpec2
           in ImageBuf_copy_pixels L outBuf buf
         else
           let imageSpec1 = attribute ''jpeg:subsampling'' (AttrStr ''4:4:4'') imageSpec;
               imageSpec2 = attribute ''CompressionQuality'' (AttrInt 100) imageSpec1;
               imageSpec3 = attribute ''compression'' (AttrStr ''none'') imageSpec2
           in ImageBuf_wrap imageSpec3 buffer)"

text \<open>The template \<open>writeImage<T>(path, typeDesc, width, height, nchannels, buffer)\<close>:
  \<open>None\<close> when the file was written.\<close>

definition writeImage :: "'v oiio \<Rightarrow> string \<Rightarrow> TypeDesc \<Rightarrow> nat \<Rightarrow> nat \<Rightarrow> nat \<Rightarrow> 'v list \<Rightarrow> error option" where
  "writeImage L path typeDesc w h c buffer =
     (if length buffer < w * h * c then Some OutOfBounds
      else if \<not> write_file L (writeImage_outBuf L path typeDesc w h c buffer) path
      then Some FileWriteError
      else None)"

definition writeImage_uchar :: "'v oiio \<Rightarrow> string \<Rightarrow> nat \<Rightarrow> nat \<Rightarrow> 'v list \<Rightarrow> error option" where
  "writeImage_uchar L path w h buffer = writeImage L path UCHAR w h 1 buffer"

definition writeImage_rgb :: "'v oiio \<Rightarrow> string \<Rightarrow> nat \<Rightarrow> nat \<Rightarrow> 'v list \<Rightarrow> error option" where
  "writeImage_rgb L path w h buffer = writeImage L path UCHAR w h 3 buffer"

definition writeImage_float :: "'v oiio \<Rightarrow> string \<Rightarrow> nat \<Rightarrow> nat \<Rightarrow> 'v list \<Rightarrow> error option" where
  "writeImage_float L path w h buffer = writeImage L path FLOAT w h 1 buffer"

definition writeImage_Color :: "'v oiio \<Rightarrow> string \<Rightarrow> nat \<Rightarrow> nat \<Rightarrow> 'v list \<Rightarrow> error option" where
  "writeImage_Color L path w h buffer = writeImage L path FLOAT w h 3 buffer"

section \<open>resizeImage and convolveImage\<close>

text \<open>
  The template \<open>resizeImage<T>\<close>. \<open>inWidth / downscale\<close> is C++ integer division,
  which on the natural numbers is \<open>div\<close>; dividing by zero is undefined.
  \<open>outWidth * outHeight\<close> is an \<open>int\<close> product. The result is the descriptor of
  \<open>outBuf\<close> and the caller's \<open>outBuffer\<close> after the call; the resampled values
  are the library's (\<open>resample\<close>).
\<close>

definition resizeImage :: "'v oiio \<Rightarrow> nat \<Rightarrow> 'v \<Rightarrow> TypeDesc \<Rightarrow> nat \<Rightarrow> nat \<Rightarrow> nat \<Rightarrow> nat
    \<Rightarrow> 'v list \<Rightarrow> 'v list \<Rightarrow> string \<Rightarrow> 'v \<Rightarrow> error + (ImageSpec \<times> 'v list)" where
  "resizeImage L tsize zero typeDesc inWidth inHeight nch downscale inBuffer outBuffer filterName filterSize =
     (if downscale = 0 then Inl OutOfBounds
      else
        let outWidth = inWidth div downscale;
            outHeight = inHeight div downscale
        in case resize_count (int_mul (int outWidth) (int outHeight)) of
             None \<Rightarrow> Inl LengthError
           | Some count \<Rightarrow>
               let outBuffer1 = vector_resize tsize zero count outBuffer;
                   inBuf = ImageBuf_wrap (ImageSpec_new inWidth inHeight nch typeDesc) inBuffer;
                   outSpec = ImageSpec_new outWidth outHeight nch typeDesc;
                   outBuf = \<lparr>spec = outSpec, pixel = resample L filterName filterSize inBuf outSpec\<rparr>
               in if length inBuffer < inWidth * inHeight * nch
                     \<or> length outBuffer1 < outWidth * outHeight * nch
                  then Inl OutOfBounds
                  else Inr (outSpec, store (ImageBuf_get_pixels L outBuf 0 nch typeDesc) outBuffer1))"

definition resizeImage_uchar :: "'v oiio \<Rightarrow> 'v \<Rightarrow> nat \<Rightarrow> nat \<Rightarrow> nat \<Rightarrow> 'v list \<Rightarrow> 'v list \<Rightarrow> string \<Rightarrow> 'v
    \<Rightarrow> error + (ImageSpec \<times> 'v list)" where
  "resizeImage_uchar L zero inWidth inHeight downscale inBuffer outBuffer filterName filterSize =
     resizeImage L 1 zero UCHAR inWidth inHeight 1 downscale inBuffer outBuffer filterName filterSize"

definition resizeImage_rgb :: "'v oiio \<Rightarrow> 'v \<Rightarrow> nat \<Rightarrow> nat \<Rightarrow> nat \<Rightarrow> 'v list \<Rightarrow> 'v list \<Rightarrow> string \<Rightarrow> 'v
    \<Rightarrow> error + (ImageSpec \<times> 'v list)" where
  "resizeImage_rgb L zero inWidth inHeight downscale inBuffer outBuffer filterName filterSize =
     resizeImage L 3 zero UCHAR inWidth inHeight 3 downscale inBuffer outBuffer filterName filterSize"




text \<open>
  The template \<open>convolveImage<T>\<close>. \<open>inBuffer.size()\<close> counts elements of \<open>T\<close>.
  The result is the caller's \<open>outBuffer\<close> after the call; kernel and convolution are
  the library's.
\<close>

definition convolveImage :: "'v oiio \<Rightarrow> nat \<Rightarrow> 'v \<Rightarrow> TypeDesc \<Rightarrow> nat \<Rightarrow> nat \<Rightarrow> nat
    \<Rightarrow> 'v list \<Rightarrow> 'v list \<Rightarrow> string \<Rightarrow> 'v \<Rightarrow> 'v \<Rightarrow> error + 'v list" where
  "convolveImage L tsize zero typeDesc inWidth inHeight nch inBuffer outBuffer kernelName kernelWidth kernelHeight =
     (let outBuffer1 = vector_resize tsize zero (length inBuffer div tsize) outBuffer;
          inBuf = ImageBuf_wrap (ImageSpec_new inWidth inHeight nch typeDesc) inBuffer;
          outSpec = ImageSpec_new inWidth inHeight nch typeDesc;
          K = make_kernel L kernelName kernelWidth kernelHeight;
          outBuf = \<lparr>spec = outSpec, pixel = convolve L inBuf K\<rparr>
      in if length inBuffer < inWidth * inHeight * nch
            \<or> length outBuffer1 < inWidth * inHeight * nch
         then Inl OutOfBounds
         else Inr (store (ImageBuf_get_pixels L outBuf 0 nch typeDesc) outBuffer1))"

definition convolveImage_uchar :: "'v oiio \<Rightarrow> 'v \<Rightarrow> nat \<Rightarrow> nat \<Rightarrow> 'v list \<Rightarrow> 'v list \<Rightarrow> string \<Rightarrow> 'v \<Rightarrow> 'v
    \<Rightarrow> error + 'v list" where
  "convolveImage_uchar L zero inWidth inHeight inBuffer outBuffer kernelName kernelWidth kernelHeight =
     convolveImage L 1 zero UCHAR inWidth inHeight 1 inBuffer outBuffer kernelName kernelWidth kernelHeight"

definition convolveImage_rgb :: "'v oiio \<Rightarrow> 'v \<Rightarrow> nat \<Rightarrow> nat \<Rightarrow> 'v list \<Rightarrow> 'v list \<Rightarrow> string \<Rightarrow> 'v \<Rightarrow> 'v
    \<Rightarrow> error + 'v list" where
  "convolveImage_rgb L zero inWidth inHeight inBuffer outBuffer kernelName kernelWidth kernelHeight =
     convolveImage L 3 zero UCHAR inWidth inHeight 3 inBuffer outBuffer kernelName kernelWidth kernelHeight"

definition convolveImage_float :: "'v oiio \<Rightarrow> 'v \<Rightarrow> nat \<Rightarrow> nat \<Rightarrow> 'v list \<Rightarrow> 'v list \<Rightarrow> string \<Rightarrow> 'v \<Rightarrow> 'v
    \<Rightarrow> error + 'v list" where
  "convolveImage_float L zero inWidth inHeight inBuffer outBuffer kernelName kernelWidth kernelHeight =
     convolveImage L 1 zero FLOAT inWidth inHeight 1 inBuffer outBuffer kernelName kernelWidth kernelHeight"

definition convolveImage_Color :: "'v oiio \<Rightarrow> 'v \<Rightarrow> nat \<Rightarrow> nat \<Rightarrow> 'v list \<Rightarrow> 'v list \<Rightarrow> string \<Rightarrow> 'v \<Rightarrow> 'v
    \<Rightarrow> error + 'v list" where
  "convolveImage_Color L zero inWidth inHeight inBuffer outBuffer kernelName kernelWidth kernelHeight =
     convolveImage L 3 zero FLOAT inWidth inHeight 3 inBuffer outBuffer kernelName kernelWidth kernelHeight"

section \<open>A small library instance for concrete runs\<close>

text \<open>
  Pixel values are natural numbers and conversions copy. Three files exist: a 2 x 1
  image of one channel, a 1 x 1 image of three channels and a 1 x 1 image of two
  channels; no other path opens. Writing succeeds except under \<open>/ro/\<close>.
\<close>

definition gray_2x1 :: "nat ImageBuf" where
  "gray_2x1 = \<lparr>spec = ImageSpec_new 2 1 1 UCHAR, pixel = (\<lambda>x y ch. 10 + x)\<rparr>"

definition rgb_1x1 :: "nat ImageBuf" where
  "rgb_1x1 = \<lparr>spec = ImageSpec_new 1 1 3 UCHAR, pixel = (\<lambda>x y ch. 20 + ch)\<rparr>"

definition graya_1x1 :: "nat ImageBuf" where
  "graya_1x1 = \<lparr>spec = ImageSpec_new 1 1 2 UCHAR, pixel = (\<lambda>x y ch. 30 + ch)\<rparr>"

definition testLib :: "nat oiio" where
  "testLib =
     \<lparr>open_image = (\<lambda>cfg path.
          if path = ''gray.png'' then Some gray_2x1
          else if path = ''rgb.png'' then Some rgb_1x1
          else if path = ''graya.png'' then Some graya_1x1
          else None),
      convert_type = (\<lambda>from to v. v),
      weighted_sum = (\<lambda>ws vs. nat \<lfloor>sum_list (map2 (\<lambda>w v. w * of_nat v) ws vs)\<rfloor>),
      sum_format = (\<lambda>td. FLOAT),
      blank = 0,
      write_file = (\<lambda>img path. take 4 path \<noteq> ''/ro/''),
      resample = (\<lambda>filterName filterSize src outSpec x y ch.
          pixel src (x * width (spec src) div width outSpec)
                    (y * height (spec src) div height outSpec) ch),
      make_kernel = (\<lambda>kernelName kw kh.
          \<lparr>spec = ImageSpec_new kw kh 1 FLOAT, pixel = (\<lambda>x y ch. 1)\<rparr>),
      convolve = (\<lambda>src K x y ch. pixel src x y ch)\<rparr>"

definition noRefs :: "nat read_refs" where
  "noRefs = \<lparr>ref_width = 7, ref_height = 8, ref_buffer = [9]\<rparr>"

section \<open>A library instance that computes in binary32\<close>

text \<open>
  Rounding of a rational number to binary32: a significand of 24 bits, round to nearest,
  ties to even. \<open>binary32_scale\<close> brings the magnitude into the range
  2^23 \<le> m < 2^24 and returns it with the unit of its last place; the exponent range of
  binary32 (overflow, subnormal numbers) is left out, the values below are near one.
\<close>

definition round_half_even :: "rat \<Rightarrow> int" where
  "round_half_even q =
     (let f = \<lfloor>q\<rfloor>; d = q - of_int f
      in if d < 1 / 2 then f else if 1 / 2 < d then f + 1 else if even f then f else f + 1)"

fun binary32_scale :: "nat \<Rightarrow> rat \<Rightarrow> rat \<Rightarrow> rat \<times> rat" where
  "binary32_scale 0 m u = (m, u)"
| "binary32_scale (Suc fuel) m u =
     (if 16777216 \<le> m then binary32_scale fuel (m / 2) (u * 2)
      else if m < 8388608 then binary32_scale fuel (m * 2) (u / 2)
      else (m, u))"

definition binary32_round :: "rat \<Rightarrow> rat" where
  "binary32_round q =
     (if q = 0 then 0
      else let (m, u) = binary32_scale 300 \<bar>q\<bar> 1
           in sgn q * of_int (round_half_even m) * u)"

text \<open>
  Modelled from the spec: the "fixed weighted sum" of OpenImageIO's \<open>channel_sum\<close>,
  which is not under src/, computed the way a \<open>float\<close> accumulator computes it:
  starting from 0, each product of a channel value and its weight is rounded and added,
  and the sum is rounded.
\<close>

definition binary32_weighted_sum :: "rat list \<Rightarrow> rat list \<Rightarrow> rat" where
  "binary32_weighted_sum ws vs =
     foldl (\<lambda>sum (w, v). binary32_round (sum + binary32_round (v * w))) 0 (zip ws vs)"




section \<open>Layout of pixels in a buffer\<close>

lemma length_get_pixels:
  "length (ImageBuf_get_pixels L img b e td) = width (spec img) * height (spec img) * (e - b)"
  by (simp add: ImageBuf_get_pixels_def Let_def)

lemma nth_get_pixels:
  assumes "i < width (spec img) * height (spec img) * (e - b)"
  shows "ImageBuf_get_pixels L img b e td ! i =
     cvt L (format (spec img)) td
       (pixel img ((i div (e - b)) mod width (spec img)) ((i div (e - b)) div width (spec img))
          (b + i mod (e - b)))"
  using assms by (simp add: ImageBuf_get_pixels_def Let_def)

lemma pixel_index_bound:
  fixes x y ch W H C :: nat
  assumes "x < W" "y < H" "ch < C"
  shows "(y * W + x) * C + ch < W * H * C"
proof -
  have "y * W + x < H * W"
  proof -
    have "y * W + x < y * W + W" using assms(1) by simp
    also have "\<dots> = (Suc y) * W" by simp
    also have "\<dots> \<le> H * W" using assms(2) by (intro mult_le_mono1) simp
    finally show ?thesis .
  qed
  then have "Suc (y * W + x) \<le> H * W" by simp
  then have "Suc (y * W + x) * C \<le> H * W * C" by (rule mult_le_mono1)
  moreover have "(y * W + x) * C + ch < Suc (y * W + x) * C" using assms(3) by simp
  ultimately show ?thesis by (simp add: mult.commute mult.left_commute)
qed

lemma pixel_index_split:
  fixes x y ch W C :: nat
  assumes "x < W" "ch < C"
  shows "((y * W + x) * C + ch) div C = y * W + x"
    and "((y * W + x) * C + ch) mod C = ch"
    and "(y * W + x) mod W = x"
    and "(y * W + x) div W = y"
  using assms by simp_all

lemma index_rejoin:
  fixes j W C :: nat
  shows "((j div C div W) * W + (j div C) mod W) * C + j mod C = j"
  by simp

lemma transposeImage_Inr:
  "w * h * c \<le> length buf \<Longrightarrow>
   \<exists>b1. transposeImage L td w h c buf = Inr b1 \<and> length b1 = length buf
      \<and> drop (w * h * c) b1 = drop (w * h * c) buf
      \<and> (\<forall>i < w * h * c. b1 ! i = buf ! ((((i div c) mod h) * w + (i div c) div h) * c + i mod c))"
  by (auto simp: transposeImage_def Let_def store_def length_get_pixels ImageBufAlgo_transpose_def
      ImageSpec_new_def ImageBuf_wrap_def nth_append nth_get_pixels cvt_def mult.commute mult.left_commute)

lemma transposeImage_exchanged:
  assumes len: "w * h * c \<le> length buf"
  shows "\<exists>b1. transposeImage L td w h c buf = Inr b1 \<and> transposeImage L td h w c b1 = Inr buf"
proof -
  let ?n = "w * h * c"
  from transposeImage_Inr[OF len, of L td] obtain b1 where
    b1: "transposeImage L td w h c buf = Inr b1" and l1: "length b1 = length buf"
    and d1: "drop ?n b1 = drop ?n buf"
    and n1: "\<forall>i < ?n. b1 ! i = buf ! ((((i div c) mod h) * w + (i div c) div h) * c + i mod c)"
    by blast
  have nn: "h * w * c = ?n" by (simp add: mult.commute)
  have len': "h * w * c \<le> length b1" using len l1 unfolding nn by simp
  from transposeImage_Inr[OF len', of L td] obtain b2 where
    b2: "transposeImage L td h w c b1 = Inr b2" and l2: "length b2 = length b1"
    and d2: "drop (h * w * c) b2 = drop (h * w * c) b1"
    and n2: "\<forall>j < h * w * c. b2 ! j = b1 ! ((((j div c) mod w) * h + (j div c) div w) * c + j mod c)"
    by blast
  have d2': "drop ?n b2 = drop ?n b1" using d2 unfolding nn .
  have n2': "\<forall>j < ?n. b2 ! j = b1 ! ((((j div c) mod w) * h + (j div c) div w) * c + j mod c)"
    using n2 unfolding nn .
  have "b2 = buf"
  proof (rule nth_equalityI)
    show "length b2 = length buf" using l1 l2 by simp
  next
    fix j assume j: "j < length b2"
    show "b2 ! j = buf ! j"
    proof (cases "j < ?n")
      case True
      have cpos: "0 < c" using True by (cases c) simp_all
      have wpos: "0 < w" using True by (cases w) simp_all
      let ?x = "(j div c) mod w" and ?y = "(j div c) div w" and ?ch = "j mod c"
      have x: "?x < w" using wpos by simp
      have ch: "?ch < c" using cpos by simp
      have "j div c < w * h" using True by (simp add: less_mult_imp_div_less mult.commute)
      then have y: "?y < h" by (simp add: less_mult_imp_div_less mult.commute)
      let ?i = "(?x * h + ?y) * c + ?ch"
      have i: "?i < ?n" using pixel_index_bound[OF y x ch] by (simp add: mult.commute)
      have "b2 ! j = b1 ! ?i" using n2' True by blast
      also have "\<dots> = buf ! ((((?i div c) mod h) * w + (?i div c) div h) * c + ?i mod c)"
        using n1 i by blast
      also have "\<dots> = buf ! ((?y * w + ?x) * c + ?ch)"
        using pixel_index_split[OF y ch, of ?x] by simp
      also have "\<dots> = buf ! j" by (simp only: index_rejoin)
      finally show ?thesis .
    next
      case False
      then have "b2 ! j = drop ?n b2 ! (j - ?n)" using j by simp
      also have "\<dots> = drop ?n buf ! (j - ?n)" using d1 d2' by simp
      also have "\<dots> = buf ! j" using False j l1 l2 by simp
      finally show ?thesis .
    qed
  qed
  then show ?thesis using b1 b2 by simp
qed

section \<open>Transposing twice\<close>

text \<open>
  Claim C1, as amended. For every width, height, channel count and element type, and a
  buffer of at least width * height * channels components, \<open>transposeImage\<close> with
  (width, height) followed by \<open>transposeImage\<close> with the exchanged arguments
  (height, width) restores the buffer exactly; with the same arguments twice it does so
  when width = height. The operation returns no dimensions: the caller exchanges them.
\<close>

theorem transposeImage_twice_exchanged:
  assumes "w * h * c \<le> length buf"
  shows "(\<exists>b1. transposeImage L td w h c buf = Inr b1 \<and> transposeImage L td h w c b1 = Inr buf)
       \<and> (w = h \<longrightarrow>
            (\<exists>b1. transposeImage L td w h c buf = Inr b1 \<and> transposeImage L td w h c b1 = Inr buf))"
  using transposeImage_exchanged[OF assms] by auto

theorem transposeImage_twice_exchanged_witness:
  "2 * 3 * 1 \<le> length [1, 2, 3, 4, 5, 6 :: nat]
   \<and> (\<exists>b1. transposeImage testLib UCHAR 2 3 1 [1, 2, 3, 4, 5, 6] = Inr b1
           \<and> transposeImage testLib UCHAR 3 2 1 b1 = Inr [1, 2, 3, 4, 5, 6])"
  using transposeImage_twice_exchanged[of 2 3 1 "[1, 2, 3, 4, 5, 6 :: nat]" testLib UCHAR] by simp

text \<open>
  Claim C1 as stated fails: a 2 x 3 one-channel buffer transposed twice with the same
  width 2 and height 3 comes back permuted.
\<close>

theorem transposeImage_twice_same_arguments_counterexample:
  "transposeImage testLib UCHAR 2 3 1 [1, 2, 3, 4, 5, 6] = Inr [1, 3, 5, 2, 4, 6]
   \<and> transposeImage testLib UCHAR 2 3 1 [1, 3, 5, 2, 4, 6] = Inr [1, 5, 4, 3, 2, 6]
   \<and> [1, 5, 4, 3, 2, 6] \<noteq> [1, 2, 3, 4, 5, 6 :: nat]"
  by code_simp

section \<open>Products that fit in an \<open>int\<close>\<close>

lemma int_wrap_in_range:
  assumes "0 \<le> i" "i \<le> INT_MAX"
  shows "int_wrap i = i"
  using assms by (simp add: int_wrap_def INT_MAX_def)


lemma int_mul_in_range:
  assumes "int (a * b) \<le> INT_MAX"
  shows "int_mul (int a) (int b) = int (a * b)"
  using assms int_wrap_in_range[of "int (a * b)"] by (simp add: int_mul_def)


lemma image_size_in_range:
  assumes "int (W * H * nch) \<le> INT_MAX" "0 < nch"
  shows "int_mul (int_mul (int W) (int H)) (int nch) = int (W * H * nch)"
proof -
  have "W * H \<le> W * H * nch" using assms(2) by simp
  then have "int (W * H) \<le> INT_MAX" using assms(1) by linarith
  then have "int_mul (int W) (int H) = int (W * H)" by (rule int_mul_in_range)
  then show ?thesis using int_mul_in_range[OF assms(1)] by simp
qed

lemma resize_count_nat: "resize_count (int n) = Some n"
  by (simp add: resize_count_def)


section \<open>Reading: the checks and the caller's variables\<close>

lemma readImage_overloads:
  "readImage_kind k L zero path refs =
     readImage L (channelsPerElement k) zero path (elementType k) (channelsPerElement k) refs"
  by (cases k) (simp_all add: readImage_uchar_def readImage_rgb_def readImage_float_def readImage_Color_def)

lemma export_pixels_cases:
  "(\<exists>r. export_pixels L tsize zero td nch img refs = (None, r))
   \<or> export_pixels L tsize zero td nch img refs
       = (Some LengthError, refs\<lparr>ref_width := width (spec img), ref_height := height (spec img)\<rparr>)
   \<or> (\<exists>r. export_pixels L tsize zero td nch img refs = (Some OutOfBounds, r))"
  by (simp add: export_pixels_def Let_def split: option.splits)

lemma export_pixels_fst:
  "fst (export_pixels L tsize zero td nch img refs) \<in> {None, Some LengthError, Some OutOfBounds}"
  using export_pixels_cases[of L tsize zero td nch img refs] by auto

lemma readImage_assert_passes:
  assumes "nch = 1 \<or> 3 \<le> nch"
  shows "fst (readImage L tsize zero path typeDesc nch refs) \<noteq> Some AssertionFailure"
proof (cases "open_image L configSpec path")
  case None
  then show ?thesis using assms by (simp add: readImage_def)
next
  case (Some inBuf)
  let ?e = "export_pixels L tsize zero typeDesc nch
      (add_missing_channels L typeDesc nch (convert_to_grayscale L nch inBuf)) refs"
  have "fst ?e \<noteq> Some AssertionFailure" using export_pixels_fst[of L tsize zero typeDesc nch _ refs]
    by (metis error.distinct(7) error.distinct(9) insertE option.distinct(1) option.inject singletonD)
  then show ?thesis using assms Some by (simp add: readImage_def)
qed

text \<open>
  Claim C10. Each of the four public \<open>readImage\<close> overloads passes a requested channel
  count of exactly 1 or exactly 3 to the template, so the template's \<open>assert\<close> never
  fails on a public entry; it does fail for a requested count of 2, which only a direct
  call of the template could pass.
\<close>

theorem readImage_public_assert_holds:
  "(channelsPerElement k = 1 \<or> channelsPerElement k = 3)
   \<and> readImage_kind k L zero path refs =
       readImage L (channelsPerElement k) zero path (elementType k) (channelsPerElement k) refs
   \<and> fst (readImage_kind k L zero path refs) \<noteq> Some AssertionFailure
   \<and> fst (readImage_uchar L zero path refs) \<noteq> Some AssertionFailure
   \<and> fst (readImage_rgb L zero path refs) \<noteq> Some AssertionFailure
   \<and> fst (readImage_float L zero path refs) \<noteq> Some AssertionFailure
   \<and> fst (readImage_Color L zero path refs) \<noteq> Some AssertionFailure
   \<and> fst (readImage L tsize zero path typeDesc 2 refs) = Some AssertionFailure"
proof -
  have k: "channelsPerElement k = 1 \<or> channelsPerElement k = 3" by (cases k) simp_all
  have a: "fst (readImage_kind k' L zero path refs) \<noteq> Some AssertionFailure" for k'
  proof -
    have "channelsPerElement k' = 1 \<or> 3 \<le> channelsPerElement k'" by (cases k') simp_all
    then show ?thesis unfolding readImage_overloads by (rule readImage_assert_passes)
  qed
  have two: "fst (readImage L tsize zero path typeDesc 2 refs) = Some AssertionFailure"
    by (simp add: readImage_def)
  show ?thesis
    using k a[of k] a[of ByteGray] a[of ByteRgb] a[of FloatGray] a[of FloatRgb] two
    by (simp add: readImage_overloads)
qed

text \<open>
  Claim C8. A \<open>readImage\<close> call that ends in \<open>FileOpenError\<close> or
  \<open>UnsupportedChannelLayoutError\<close> (or in the failed assertion) leaves the caller's
  buffer, width and height exactly as they were: these failures are raised before the
  first write to them. The only other failures come from the export at the end, after
  width and height are written; a \<open>std::length_error\<close> of \<open>resize\<close> still
  leaves the buffer as it was.
\<close>

theorem readImage_error_leaves_refs:
  assumes "fst (readImage L tsize zero path typeDesc nch refs) = Some e"
  shows "(e = AssertionFailure \<or> e = FileOpenError \<or> e = UnsupportedChannelLayoutError
            \<longrightarrow> snd (readImage L tsize zero path typeDesc nch refs) = refs)
       \<and> (e = AssertionFailure \<or> e = FileOpenError \<or> e = UnsupportedChannelLayoutError
            \<or> e = LengthError \<or> e = OutOfBounds)
       \<and> (e = LengthError
            \<longrightarrow> ref_buffer (snd (readImage L tsize zero path typeDesc nch refs)) = ref_buffer refs)"
proof -
  let ?r = "readImage L tsize zero path typeDesc nch refs"
  show ?thesis
  proof (cases "\<not> (nch = 1 \<or> 3 \<le> nch)")
    case True
    then have "?r = (Some AssertionFailure, refs)" by (simp add: readImage_def)
    then show ?thesis using assms by auto
  next
    case ok: False
    show ?thesis
    proof (cases "open_image L configSpec path")
      case None
      then have "?r = (Some FileOpenError, refs)" using ok by (simp add: readImage_def)
      then show ?thesis using assms by auto
    next
      case (Some inBuf)
      show ?thesis
      proof (cases "nchannels (spec inBuf) \<noteq> 1 \<and> nchannels (spec inBuf) < 3")
        case True
        then have "?r = (Some UnsupportedChannelLayoutError, refs)"
          using ok Some by (simp add: readImage_def)
        then show ?thesis using assms by auto
      next
        case False
        let ?img = "add_missing_channels L typeDesc nch (convert_to_grayscale L nch inBuf)"
        have r: "?r = export_pixels L tsize zero typeDesc nch ?img refs"
          unfolding readImage_def by (simp only: ok Some False if_False option.case)
        from export_pixels_cases[of L tsize zero typeDesc nch ?img refs] assms
        show ?thesis unfolding r by auto
      qed
    qed
  qed
qed

theorem readImage_error_leaves_refs_witness:
  "fst (readImage testLib 3 0 ''missing.png'' UCHAR 3 noRefs) = Some FileOpenError
   \<and> snd (readImage testLib 3 0 ''missing.png'' UCHAR 3 noRefs) = noRefs
   \<and> fst (readImage testLib 3 0 ''graya.png'' UCHAR 3 noRefs) = Some UnsupportedChannelLayoutError
   \<and> snd (readImage testLib 3 0 ''graya.png'' UCHAR 3 noRefs) = noRefs"
proof -
  have a: "fst (readImage testLib 3 0 ''missing.png'' UCHAR 3 noRefs) = Some FileOpenError"
    by (simp add: readImage_def testLib_def)
  have b: "fst (readImage testLib 3 0 ''graya.png'' UCHAR 3 noRefs) = Some UnsupportedChannelLayoutError"
    by (simp add: readImage_def testLib_def graya_1x1_def ImageSpec_new_def)
  show ?thesis
    using a b readImage_error_leaves_refs[OF a] readImage_error_leaves_refs[OF b] by simp
qed

text \<open>A source of 46341 x 46341 pixels of one channel opens and passes the channel
  check; its size does not fit in an \<open>int\<close>, and the call ends in the
  \<open>std::length_error\<close> of \<open>resize\<close> with width and height already written.\<close>

lemma readImage_large_source:
  assumes "open_image L configSpec path = Some src"
    and "nchannels (spec src) = 1" "width (spec src) = 46341" "height (spec src) = 46341"
  shows "readImage_uchar L zero path refs
         = (Some LengthError, refs\<lparr>ref_width := 46341, ref_height := 46341\<rparr>)"
  using assms
  by (simp add: readImage_uchar_def readImage_def export_pixels_def add_missing_channels_def
      convert_to_grayscale_def Let_def int_mul_def int_wrap_def resize_count_def)

section \<open>Reading: passing the channel check\<close>

lemma length_store: "length (store data buf) = max (length data) (length buf)"
  by (simp add: store_def)


lemma length_vector_resize: "length (vector_resize tsize zero n buf) = n * tsize"
  by (simp add: vector_resize_def)

lemma export_pixels_in_range:
  assumes fit: "int (width (spec img) * height (spec img) * nch) \<le> INT_MAX"
    and nch: "0 < nch" and tsize: "0 < tsize"
  shows "export_pixels L tsize zero td nch img refs =
     (None, \<lparr>ref_width = width (spec img), ref_height = height (spec img),
        ref_buffer = store (ImageBuf_get_pixels L img 0 nch td)
          (vector_resize tsize zero (width (spec img) * height (spec img) * nch) (ref_buffer refs))\<rparr>)"
proof -
  let ?n = "width (spec img) * height (spec img) * nch"
  have n: "resize_count (int_mul (int_mul (int (width (spec img))) (int (height (spec img)))) (int nch))
           = Some ?n"
    unfolding image_size_in_range[OF fit nch] by (rule resize_count_nat)
  have le: "?n \<le> ?n * tsize" using tsize by (cases tsize) simp_all
  have len: "\<not> length (vector_resize tsize zero ?n (ref_buffer refs)) < ?n"
    unfolding length_vector_resize not_less by (rule le)
  show ?thesis
    unfolding export_pixels_def Let_def n using len by simp
qed


lemma readImage_passes_checks:
  assumes "open_image L configSpec path = Some src"
    and "nchannels (spec src) = 1 \<or> 3 \<le> nchannels (spec src)"
    and "nch = 1 \<or> 3 \<le> nch"
  shows "readImage L tsize zero path td nch refs =
     export_pixels L tsize zero td nch
       (add_missing_channels L td nch (convert_to_grayscale L nch src)) refs"
proof -
  have a: "\<not> \<not> (nch = 1 \<or> 3 \<le> nch)" using assms(3) by simp
  have b: "\<not> (nchannels (spec src) \<noteq> 1 \<and> nchannels (spec src) < 3)" using assms(2) by auto
  show ?thesis unfolding readImage_def by (simp only: a b assms(1) if_False option.case)
qed

lemma prepared_size:
  "width (spec (add_missing_channels L td nch (convert_to_grayscale L nch src))) = width (spec src)"
  "height (spec (add_missing_channels L td nch (convert_to_grayscale L nch src))) = height (spec src)"
  by (simp_all add: add_missing_channels_def convert_to_grayscale_def Let_def ImageSpec_new_def
      ImageBuf_new_def ImageBufAlgo_paste_def ImageBufAlgo_channel_sum_def)

text \<open>
  Claim C2. For every pixel kind, \<open>readImage\<close> on a source that opens and whose channel
  count is neither 1 nor at least 3 (exactly 2 in particular) fails with
  \<open>UnsupportedChannelLayoutError\<close>. On a source with 1 or at least 3 channels it gets
  past that check: it ends in none of the errors raised up to there, and when the size
  width * height * channels fits in an \<open>int\<close> it returns without an error.
\<close>

theorem readImage_channel_check:
  assumes "open_image L configSpec path = Some src"
  shows "(nchannels (spec src) \<noteq> 1 \<and> nchannels (spec src) < 3 \<longrightarrow>
            fst (readImage_kind k L zero path refs) = Some UnsupportedChannelLayoutError)
       \<and> (nchannels (spec src) = 2 \<longrightarrow>
            fst (readImage_kind k L zero path refs) = Some UnsupportedChannelLayoutError)
       \<and> (nchannels (spec src) = 1 \<or> 3 \<le> nchannels (spec src) \<longrightarrow>
            fst (readImage_kind k L zero path refs) \<noteq> Some UnsupportedChannelLayoutError
            \<and> fst (readImage_kind k L zero path refs) \<noteq> Some FileOpenError
            \<and> fst (readImage_kind k L zero path refs) \<noteq> Some AssertionFailure)
       \<and> ((nchannels (spec src) = 1 \<or> 3 \<le> nchannels (spec src))
            \<and> int (width (spec src) * height (spec src) * channelsPerElement k) \<le> INT_MAX \<longrightarrow>
            fst (readImage_kind k L zero path refs) = None)"
proof -
  let ?c = "channelsPerElement k" and ?td = "elementType k"
  have k: "?c = 1 \<or> 3 \<le> ?c" and kpos: "0 < ?c" by (cases k; simp)+
  have bad: "fst (readImage_kind k L zero path refs) = Some UnsupportedChannelLayoutError"
    if "nchannels (spec src) \<noteq> 1 \<and> nchannels (spec src) < 3"
    unfolding readImage_overloads using assms k that by (auto simp: readImage_def)
  let ?img = "add_missing_channels L ?td ?c (convert_to_grayscale L ?c src)"
  have good: "readImage_kind k L zero path refs = export_pixels L ?c zero ?td ?c ?img refs"
    if "nchannels (spec src) = 1 \<or> 3 \<le> nchannels (spec src)"
    unfolding readImage_overloads using assms that k by (rule readImage_passes_checks)
  have past: "fst (readImage_kind k L zero path refs) \<noteq> Some UnsupportedChannelLayoutError
            \<and> fst (readImage_kind k L zero path refs) \<noteq> Some FileOpenError
            \<and> fst (readImage_kind k L zero path refs) \<noteq> Some AssertionFailure"
    if ok: "nchannels (spec src) = 1 \<or> 3 \<le> nchannels (spec src)"
    unfolding good[OF ok] using export_pixels_fst[of L ?c zero ?td ?c ?img refs] by auto
  have fine: "fst (readImage_kind k L zero path refs) = None"
    if ok: "nchannels (spec src) = 1 \<or> 3 \<le> nchannels (spec src)"
      and fit: "int (width (spec src) * height (spec src) * ?c) \<le> INT_MAX"
  proof -
    have fit': "int (width (spec ?img) * height (spec ?img) * ?c) \<le> INT_MAX"
      unfolding prepared_size using fit .
    show ?thesis unfolding good[OF ok] export_pixels_in_range[OF fit' kpos kpos] by simp
  qed
  show ?thesis using bad past fine by auto
qed

theorem readImage_channel_check_witness:
  "open_image testLib configSpec ''graya.png'' = Some graya_1x1
   \<and> nchannels (spec graya_1x1) = 2
   \<and> fst (readImage_kind FloatRgb testLib 0 ''graya.png'' noRefs) = Some UnsupportedChannelLayoutError
   \<and> open_image testLib configSpec ''rgb.png'' = Some rgb_1x1
   \<and> 3 \<le> nchannels (spec rgb_1x1)
   \<and> int (width (spec rgb_1x1) * height (spec rgb_1x1) * channelsPerElement ByteGray) \<le> INT_MAX
   \<and> fst (readImage_kind ByteGray testLib 0 ''rgb.png'' noRefs) = None"
proof -
  have a: "open_image testLib configSpec ''graya.png'' = Some graya_1x1"
    by (simp add: testLib_def)
  have b: "open_image testLib configSpec ''rgb.png'' = Some rgb_1x1"
    by (simp add: testLib_def)
  have c: "nchannels (spec graya_1x1) = 2" by (simp add: graya_1x1_def ImageSpec_new_def)
  have d: "3 \<le> nchannels (spec rgb_1x1)" by (simp add: rgb_1x1_def ImageSpec_new_def)
  have e: "int (width (spec rgb_1x1) * height (spec rgb_1x1) * channelsPerElement ByteGray) \<le> INT_MAX"
    by (simp add: rgb_1x1_def ImageSpec_new_def INT_MAX_def)
  show ?thesis
    using a b c d e readImage_channel_check[OF a, of FloatRgb 0 noRefs]
      readImage_channel_check[OF b, of ByteGray 0 noRefs]
    by simp
qed

section \<open>Reading a one-channel source into an RGB buffer\<close>






section \<open>Resizing: the output dimensions\<close>






text \<open>An output of 46341 x 46341 pixels does not fit: \<open>outWidth * outHeight\<close>
  overflows and \<open>resize\<close> throws.\<close>

lemma resizeImage_large_output:
  "resizeImage_uchar L zero 46341 46341 1 (replicate 2147488281 zero) [] filterName filterSize
     = Inl LengthError"
  by (simp add: resizeImage_uchar_def resizeImage_def Let_def int_mul_def int_wrap_def resize_count_def)

section \<open>Writing: the EXR test and the two branches\<close>

lemma isEXR_last_four:
  "isEXR path \<longleftrightarrow> 4 < length path \<and> drop (length path - 4) path = ''.exr''"
  by (auto simp: isEXR_def compare_eq_def)

lemma isEXR_stem:
  "isEXR path \<longleftrightarrow> (\<exists>stem. stem \<noteq> [] \<and> path = stem @ ''.exr'')"
proof
  assume "isEXR path"
  then have l: "4 < length path" and d: "drop (length path - 4) path = ''.exr''"
    by (simp_all add: isEXR_last_four)
  have "path = take (length path - 4) path @ drop (length path - 4) path" by simp
  then have "path = take (length path - 4) path @ ''.exr''" using d by simp
  moreover have "take (length path - 4) path \<noteq> []" using l by auto
  ultimately show "\<exists>stem. stem \<noteq> [] \<and> path = stem @ ''.exr''" by blast
next
  assume "\<exists>stem. stem \<noteq> [] \<and> path = stem @ ''.exr''"
  then obtain stem where "stem \<noteq> []" "path = stem @ ''.exr''" by blast
  then show "isEXR path" by (cases stem) (simp_all add: isEXR_last_four)
qed

lemma isEXR_ends_in_exr: "isEXR path \<longleftrightarrow> 4 < length path \<and> ends_in_exr path"
  by (auto simp: isEXR_last_four ends_in_exr_def)

lemma writeImage_outBuf_spec:
  "spec (writeImage_outBuf L path td w h c buffer) =
     (if isEXR path
      then \<lparr>width = w, height = h, nchannels = c, format = HALF,
            extra_attribs = [(''compression'', AttrStr ''piz'')]\<rparr>
      else \<lparr>width = w, height = h, nchannels = c, format = td,
            extra_attribs = [(''jpeg:subsampling'', AttrStr ''4:4:4''),
                             (''CompressionQuality'', AttrInt 100),
                             (''compression'', AttrStr ''none'')]\<rparr>)"
  by (simp add: writeImage_outBuf_def Let_def ImageSpec_new_def attribute_def ImageBuf_new_def
      ImageBuf_copy_pixels_def ImageBuf_wrap_def)

text \<open>
  Claim C6, as amended. In every \<open>writeImage\<close> call the image handed to the
  library's \<open>write\<close> has, when the path has more than four characters and ends in the
  lowercase \<open>.exr\<close>, the element format \<open>HALF\<close> and the attribute
  compression = piz; for every other path (the path \<open>.exr\<close> itself included) it has
  the caller's element format and the attributes jpeg:subsampling = 4:4:4,
  CompressionQuality = 100 and compression = none. Exactly one of the two descriptors is
  written per call.
\<close>

theorem writeImage_branches:
  "spec (writeImage_outBuf L path td w h c buffer) =
     (if 4 < length path \<and> ends_in_exr path
      then \<lparr>width = w, height = h, nchannels = c, format = HALF,
            extra_attribs = [(''compression'', AttrStr ''piz'')]\<rparr>
      else \<lparr>width = w, height = h, nchannels = c, format = td,
            extra_attribs = [(''jpeg:subsampling'', AttrStr ''4:4:4''),
                             (''CompressionQuality'', AttrInt 100),
                             (''compression'', AttrStr ''none'')]\<rparr>)
   \<and> (writeImage L path td w h c buffer = None) =
       (w * h * c \<le> length buffer \<and> write_file L (writeImage_outBuf L path td w h c buffer) path)"
proof -
  have "spec (writeImage_outBuf L path td w h c buffer) =
     (if 4 < length path \<and> ends_in_exr path
      then \<lparr>width = w, height = h, nchannels = c, format = HALF,
            extra_attribs = [(''compression'', AttrStr ''piz'')]\<rparr>
      else \<lparr>width = w, height = h, nchannels = c, format = td,
            extra_attribs = [(''jpeg:subsampling'', AttrStr ''4:4:4''),
                             (''CompressionQuality'', AttrInt 100),
                             (''compression'', AttrStr ''none'')]\<rparr>)"
    unfolding writeImage_outBuf_spec isEXR_ends_in_exr ..
  moreover have "(writeImage L path td w h c buffer = None) =
       (w * h * c \<le> length buffer \<and> write_file L (writeImage_outBuf L path td w h c buffer) path)"
    by (auto simp: writeImage_def)
  ultimately show ?thesis by (rule conjI)
qed

text \<open>
  Claim C6 as stated fails: the path \<open>.exr\<close> ends in the EXR extension, and the image
  written for it keeps the caller's format \<open>FLOAT\<close> with compression = none.
\<close>

theorem writeImage_bare_exr_counterexample:
  "ends_in_exr ''.exr''
   \<and> spec (writeImage_outBuf testLib ''.exr'' FLOAT 1 1 1 [5]) =
       \<lparr>width = 1, height = 1, nchannels = 1, format = FLOAT,
        extra_attribs = [(''jpeg:subsampling'', AttrStr ''4:4:4''),
                         (''CompressionQuality'', AttrInt 100),
                         (''compression'', AttrStr ''none'')]\<rparr>
   \<and> format (spec (writeImage_outBuf testLib ''.exr'' FLOAT 1 1 1 [5])) \<noteq> HALF
   \<and> writeImage testLib ''.exr'' FLOAT 1 1 1 [5] = None"
  by (simp add: ends_in_exr_def writeImage_outBuf_spec isEXR_last_four writeImage_def testLib_def)

text \<open>
  Claim C9. \<open>writeImage\<close> classifies a path as EXR exactly when the path has more than
  four characters and its last four are the lowercase \<open>.exr\<close>, that is, when it is a
  nonempty stem followed by \<open>.exr\<close>. The path \<open>.exr\<close> itself and paths ending in
  \<open>.EXR\<close> or \<open>.Exr\<close> are written through the other branch.
\<close>

theorem isEXR_classification:
  "(isEXR path \<longleftrightarrow> 4 < length path \<and> drop (length path - 4) path = ''.exr'')
   \<and> (isEXR path \<longleftrightarrow> (\<exists>stem. stem \<noteq> [] \<and> path = stem @ ''.exr''))
   \<and> isEXR ''image.exr''
   \<and> \<not> isEXR ''.exr'' \<and> \<not> isEXR ''image.EXR'' \<and> \<not> isEXR ''image.Exr''
   \<and> spec (writeImage_outBuf L ''.exr'' td w h c buffer) =
       \<lparr>width = w, height = h, nchannels = c, format = td,
        extra_attribs = [(''jpeg:subsampling'', AttrStr ''4:4:4''),
                         (''CompressionQuality'', AttrInt 100),
                         (''compression'', AttrStr ''none'')]\<rparr>
   \<and> spec (writeImage_outBuf L ''image.EXR'' td w h c buffer) =
       \<lparr>width = w, height = h, nchannels = c, format = td,
        extra_attribs = [(''jpeg:subsampling'', AttrStr ''4:4:4''),
                         (''CompressionQuality'', AttrInt 100),
                         (''compression'', AttrStr ''none'')]\<rparr>"
proof -
  have a: "isEXR ''image.exr''" by (simp add: isEXR_last_four)
  have b: "\<not> isEXR ''.exr''" "\<not> isEXR ''image.EXR''" "\<not> isEXR ''image.Exr''"
    by (simp_all add: isEXR_last_four)
  show ?thesis
    using a b isEXR_stem[of path] isEXR_last_four[of path]
    by (simp add: writeImage_outBuf_spec)
qed

section \<open>The size of the buffers the bridge fills\<close>

text \<open>
  \<open>readImage\<close> resizes the caller's vector to width * height * nchannels elements of
  \<open>T\<close>, that is, to width * height * nchannels * tsize components
  (\<open>export_pixels_in_range\<close>); \<open>resizeImage\<close> resizes its output to
  outWidth * outHeight elements (\<open>resizeImage_Inr\<close>), and \<open>convolveImage\<close> to the
  element count of its input.
\<close>

lemma convolveImage_buffer_length:
  assumes "convolveImage L tsize zero td w h nch inBuffer outBuffer kernelName kw kh = Inr out"
  shows "length out = (length inBuffer div tsize) * tsize"
  using assms
  by (auto simp: convolveImage_def Let_def length_store length_vector_resize length_get_pixels
      ImageSpec_new_def split: if_splits)

text \<open>
  Claim C7 does not hold of the code. Reading a 1 x 1 three-channel file into a vector of
  \<open>rgb\<close> leaves a vector of 3 elements (9 components), of which the first holds the
  pixel; resizing that 1 x 1 image by 1 gives a vector of 1 element (3 components), and
  convolving the 3-element vector gives 3 elements again. The three operations do not size
  their buffers by one rule for the three-component element types.
\<close>

theorem buffer_sizing_readImage_rgb_differs:
  "readImage_rgb testLib 0 ''rgb.png'' noRefs
     = (None, \<lparr>ref_width = 1, ref_height = 1, ref_buffer = [20, 21, 22, 0, 0, 0, 0, 0, 0]\<rparr>)
   \<and> resizeImage_rgb testLib 0 1 1 1 [20, 21, 22] [] [] 0
       = Inr (ImageSpec_new 1 1 3 UCHAR, [20, 21, 22])
   \<and> convolveImage_rgb testLib 0 1 1 [20, 21, 22, 0, 0, 0, 0, 0, 0] [] [] 0 0
       = Inr [20, 21, 22, 0, 0, 0, 0, 0, 0]
   \<and> channelsPerElement ByteRgb = 3
   \<and> (9::nat) \<noteq> 1 * 1 * 3"
  by code_simp

section \<open>Reading a colour source into a grayscale buffer\<close>

text \<open>
  Evaluation of the binary32 rounding on numerals. The three weights are the roundings of
  the decimals 0.2126, 0.7152 and 0.0722, and as exact numbers they add up to one; the
  rounded sum of a neutral gray is the gray for 1.0 and one unit in the last place below
  it for 0.7f.
\<close>

lemma binary32_scale_numeral:
  "binary32_scale (numeral k) m u =
     (if 16777216 \<le> m then binary32_scale (pred_numeral k) (m / 2) (u * 2)
      else if m < 8388608 then binary32_scale (pred_numeral k) (m * 2) (u / 2)
      else (m, u))"
  by (simp add: numeral_eq_Suc)

lemma floor_numeral_fraction:
  "\<lfloor>(numeral a :: rat) / numeral b\<rfloor> = numeral a div numeral b"
  by (metis floor_divide_of_int_eq of_int_numeral)

lemmas binary32_eval =
  binary32_round_def binary32_scale_numeral round_half_even_def Let_def floor_numeral_fraction

lemma binary32_round_07: "binary32_round (7 / 10) = 11744051 / 16777216"
  by (simp add: binary32_eval)


lemma binary32_sum_of_neutral_1: "binary32_weighted_sum weights [1, 1, 1] = 1"
  by (simp add: binary32_weighted_sum_def weights_def binary32_eval)

lemma weights_binary32:
  "weights = [binary32_round (2126 / 10000), binary32_round (7152 / 10000), binary32_round (722 / 10000)]"
  by (simp add: weights_def binary32_eval)







end
